theory Spec2Isabelle
  imports Main "HOL-Library.Word"
begin

unbundle bit_operations_syntax

section \<open>Machine types and the macros of USB_Header.h\<close>

text \<open>
  The driver is C for a 32-bit VxWorks target: \<open>UCHAR\<close>/\<open>UINT8\<close> are 8-bit words,
  \<open>UINT16\<close> 16-bit words, \<open>UINT32\<close> and \<open>int\<close> 32-bit words. Unsigned arithmetic is the
  arithmetic of \<open>'a word\<close>; \<open>int\<close> values are read with \<open>sint\<close>, compared with \<open><s\<close> and
  shifted right with \<open>signed_drop_bit\<close>.
\<close>

type_synonym u8 = "8 word"
type_synonym u16 = "16 word"
type_synonym u32 = "32 word"
type_synonym c_int = "32 word"

text \<open>The macros of \<open>USB_Header.h\<close> that the modelled code uses.\<close>

definition USB_DIRECTION_OUT :: u8 where "USB_DIRECTION_OUT = 0x21"
definition USB_DIRECTION_IN :: u8 where "USB_DIRECTION_IN = 0xA1"
definition USB_SET_CURRENT :: u8 where "USB_SET_CURRENT = 0x01"
definition USB_GET_CURRENT :: u8 where "USB_GET_CURRENT = 0x81"
definition USB_SETUP_PACKET_INDEX :: u16 where "USB_SETUP_PACKET_INDEX = 0x01"
definition UVC_VS_PROBE_CONTROL :: u16 where "UVC_VS_PROBE_CONTROL = 0x100"
definition UVC_VS_COMMIT_CONTROL :: u16 where "UVC_VS_COMMIT_CONTROL = 0x200"
definition dwFrameInterval :: u8 where "dwFrameInterval = 0x01"
definition UNCOMPRESSED_FRAMES :: u8 where "UNCOMPRESSED_FRAMES = 0x00"
definition RESOLUTION :: u8 where "RESOLUTION = 0x02"
definition NUMBER_OF_ISOCHRONOUS_PACKETS :: nat where "NUMBER_OF_ISOCHRONOUS_PACKETS = 12"
definition HEADER_LENGTH :: nat where "HEADER_LENGTH = 12"
definition ISOCHRONOUS_BUFFER_SIZE :: nat where "ISOCHRONOUS_BUFFER_SIZE = 944"
definition ISOCHRONOUS_TRANSFER_LENGTH :: nat where "ISOCHRONOUS_TRANSFER_LENGTH = 11328"
definition NO_OF_TRANSFERS :: nat where "NO_OF_TRANSFERS = 5"
definition HRES :: nat where "HRES = 160"
definition VRES :: nat where "VRES = 120"
definition INTERFACE :: nat where "INTERFACE = 1"
definition ALTERNATE_INTERFACE :: nat where "ALTERNATE_INTERFACE = 6"
definition FRAME_COUNT :: u16 where "FRAME_COUNT = 500"
definition FPS_15_DATA_4 :: u8 where "FPS_15_DATA_4 = 0x2A"
definition FPS_15_DATA_5 :: u8 where "FPS_15_DATA_5 = 0x2C"
definition FPS_15_DATA_6 :: u8 where "FPS_15_DATA_6 = 0x0A"

section \<open>Format converter: \<open>YUV2RGB\<close>\<close>

text \<open>
  \<open>processImage\<close> reads each sample as \<open>(int)pptr[i]\<close>, stores it in an \<open>INT16\<close> temporary
  and passes that temporary to the \<open>int\<close> parameter of \<open>YUV2RGB\<close>.
\<close>

definition sample_arg :: "u8 \<Rightarrow> c_int" where
  "sample_arg b = scast (ucast (ucast b :: c_int) :: 16 word)"

text \<open>
  \<open>YUV2RGB(int y, int u, int v, char *r, char *g, char *b)\<close>: the three results are the
  bytes stored through \<open>r\<close>, \<open>g\<close> and \<open>b\<close>. The upper saturation tests come first, the
  lower ones second, as in the source.
\<close>

definition YUV2RGB :: "c_int \<Rightarrow> c_int \<Rightarrow> c_int \<Rightarrow> u8 \<times> u8 \<times> u8" where
  "YUV2RGB y u v =
    (let c = y - 16;
         d = u - 128;
         e = v - 128;
         f = 298 * c;
         r1 = signed_drop_bit 8 (f + 409 * e + 128);
         g1 = signed_drop_bit 8 (f - 100 * d - 208 * e + 128);
         b1 = signed_drop_bit 8 (f + 516 * d + 128);
         r1 = (if 255 <s r1 then 255 else r1);
         g1 = (if 255 <s g1 then 255 else g1);
         b1 = (if 255 <s b1 then 255 else b1);
         r1 = (if r1 <s 0 then 0 else r1);
         g1 = (if g1 <s 0 then 0 else g1);
         b1 = (if b1 <s 0 then 0 else b1)
     in (ucast r1, ucast g1, ucast b1))"

text \<open>
  The conversion as the specification words it, over unbounded integers: \<open>>> 8\<close> is the
  arithmetic shift \<open>drop_bit 8\<close> (division by 256 rounding down).
\<close>

definition clamp :: "int \<Rightarrow> int \<Rightarrow> int \<Rightarrow> int" where
  "clamp x lo hi = (if x < lo then lo else if hi < x then hi else x)"

definition convert_spec :: "int \<Rightarrow> int \<Rightarrow> int \<Rightarrow> int \<times> int \<times> int" where
  "convert_spec y u v =
    (let c = y - 16; d = u - 128; e = v - 128
     in (clamp (drop_bit 8 (298 * c + 409 * e + 128)) 0 255,
         clamp (drop_bit 8 (298 * c - 100 * d - 208 * e + 128)) 0 255,
         clamp (drop_bit 8 (298 * c + 516 * d + 128)) 0 255))"

definition rgb_values :: "u8 \<times> u8 \<times> u8 \<Rightarrow> int \<times> int \<times> int" where
  "rgb_values p = (case p of (r, g, b) \<Rightarrow> (uint r, uint g, uint b))"

section \<open>Globals, host calls and the shutdown path\<close>

text \<open>
  Status values. The source compares against \<open>USBHST_SUCCESS\<close> and \<open>OK\<close> (both the
  success value of the VxWorks headers, one constructor here) and returns
  \<open>USBHST_FAILURE\<close> and \<open>ERROR\<close> by name; \<open>USBHST_OTHER n\<close> stands for the \<open>n\<close>-th of
  the remaining error codes of the host stack.
\<close>

datatype USBHST_STATUS = USBHST_SUCCESS | USBHST_FAILURE | ERROR | USBHST_OTHER nat

text \<open>
  The calls the driver makes into the host USB stack and the operating system, and its
  writes to \<open>image_buffer\<close>, are recorded in program order.
\<close>

datatype event =
    Driver_Deregister
  | Get_Configuration
  | Set_Configuration u8
  | Control_URB_Submit u8 u8 u16 u16 "u8 list"
  | Set_Interface nat nat
  | Pipe_Prepare
  | Iso_URB_Submit
  | Task_Spawn_processImage
  | Sem_Take
  | Sem_Give
  | Memset_image_buffer
  | Memcpy_image_buffer u32 u32

text \<open>The global variables of \<open>USB_Header.c\<close>, and the record of calls made so far.\<close>

record globals =
  data :: "u8 list"
  image_buffer :: "u8 list"
  offset :: u32
  frameCount :: u16
  mem_h :: u8
  end_of_image :: u8
  aborted :: u8
  first :: u8
  trace :: "event list"

definition call :: "event \<Rightarrow> globals \<Rightarrow> globals" where
  "call e g = g\<lparr>trace := trace g @ [e]\<rparr>"

text \<open>C zero-initialises the globals.\<close>

definition initial_globals :: globals where
  "initial_globals =
     \<lparr>data = replicate 26 0, image_buffer = replicate (HRES * VRES * 2) 0, offset = 0,
      frameCount = 0, mem_h = 0, end_of_image = 0, aborted = 0, first = 0, trace = []\<rparr>"

definition shutDown :: "globals \<Rightarrow> globals" where
  "shutDown g = call Driver_Deregister g"

definition fill_global :: "globals \<Rightarrow> globals" where
  "fill_global g =
     g\<lparr>data := (data g)[0 := dwFrameInterval, 1 := 0x00, 2 := UNCOMPRESSED_FRAMES,
                       3 := RESOLUTION, 4 := FPS_15_DATA_4, 5 := FPS_15_DATA_5,
                       6 := FPS_15_DATA_6],
       first := 1, frameCount := FRAME_COUNT, aborted := 0\<rparr>"

section \<open>Frame reassembler: \<open>Isochronous_Completion_Callback\<close>\<close>

record USBHST_ISO_PACKET_DESC =
  uLength :: u32
  uOffset :: u32
  nStatus :: USBHST_STATUS

record USBHST_URB =
  pTransferBuffer :: "u8 list"
  pTransferSpecificData :: "USBHST_ISO_PACKET_DESC list"

text \<open>
  \<open>memcpy(dst + doff, src + soff, n)\<close> on arrays. C defines it only when both ranges lie
  inside their arrays; otherwise the result is \<open>None\<close>.
\<close>

definition memcpy :: "u8 list \<Rightarrow> nat \<Rightarrow> u8 list \<Rightarrow> nat \<Rightarrow> nat \<Rightarrow> u8 list option" where
  "memcpy dst doff src soff n =
     (if doff + n \<le> length dst \<and> soff + n \<le> length src
      then Some (take doff dst @ take n (drop soff src) @ drop (doff + n) dst)
      else None)"

text \<open>
  The ways the packet loop stops early. \<open>Task_Spawn_Failed\<close>: \<open>taskSpawn\<close> returned
  \<open>ERROR\<close>, the callback calls \<open>shutDown\<close> and returns \<open>ERROR\<close>.
  \<open>Memcpy_Overrun off n\<close>: the source called \<open>memcpy(image_buffer + off, \<dots>, n)\<close> with a
  range that leaves one of the arrays; this is not a return of the source (which has no
  such test), it marks that the copy was executed outside the array and that C gives the
  execution no further meaning.
\<close>

datatype fault = Task_Spawn_Failed | Memcpy_Overrun u32 u32

text \<open>The FID bit of packet \<open>i\<close>: \<open>pUrb->pTransferBuffer[(i*ISOCHRONOUS_BUFFER_SIZE) + 1] & 0x01\<close>.\<close>

definition fid_bit :: "USBHST_URB \<Rightarrow> nat \<Rightarrow> u8" where
  "fid_bit pUrb i = (pTransferBuffer pUrb ! (i * ISOCHRONOUS_BUFFER_SIZE + 1)) AND 0x01"

text \<open>
  The two statements both branches of the loop body end with: the \<open>memcpy\<close> of
  \<open>uLength - HEADER_LENGTH\<close> bytes (a \<open>UINT32\<close> subtraction) to \<open>image_buffer + offset\<close>,
  and \<open>offset += uLength - HEADER_LENGTH\<close>.
\<close>

definition copy_payload :: "USBHST_URB \<Rightarrow> nat \<Rightarrow> globals \<Rightarrow> (fault \<times> globals) + globals" where
  "copy_payload pUrb i g =
    (let n = uLength (pTransferSpecificData pUrb ! i) - of_nat HEADER_LENGTH;
         g1 = call (Memcpy_image_buffer (offset g) n) g
     in case memcpy (image_buffer g1) (unat (offset g1)) (pTransferBuffer pUrb)
               (i * ISOCHRONOUS_BUFFER_SIZE + HEADER_LENGTH) (unat n) of
          None \<Rightarrow> Inl (Memcpy_Overrun (offset g1) n, g1)
        | Some img \<Rightarrow> Inr (g1\<lparr>image_buffer := img, offset := offset g1 + n\<rparr>))"

text \<open>
  The first \<open>if\<close> of the loop body, for packet \<open>i\<close>. \<open>spawn_ok\<close> is whether \<open>taskSpawn\<close>
  succeeds if it is called.
\<close>

definition process_packet ::
  "bool \<Rightarrow> USBHST_URB \<Rightarrow> nat \<Rightarrow> globals \<Rightarrow> (fault \<times> globals) + globals" where
  "process_packet spawn_ok pUrb i g =
    (if uLength (pTransferSpecificData pUrb ! i) \<noteq> of_nat HEADER_LENGTH then
       if mem_h g \<noteq> fid_bit pUrb i then
         let g1 = g\<lparr>mem_h := fid_bit pUrb i, end_of_image := 1, offset := 0,
                     frameCount := frameCount g - 1\<rparr>;
             g2 = (if frameCount g1 = 0 then g1\<lparr>aborted := 1\<rparr> else g1);
             g3 = call Task_Spawn_processImage g2
         in if \<not> spawn_ok then Inl (Task_Spawn_Failed, shutDown g3)
            else
              let g4 = g3\<lparr>first := 1\<rparr>;
                  g5 = (call Memset_image_buffer g4)
                         \<lparr>image_buffer := replicate (HRES * VRES * 2) 0\<rparr>
              in copy_payload pUrb i g5
       else
         let g1 = (if first g = 1 then (call Sem_Take g)\<lparr>first := 0\<rparr> else g)
         in copy_payload pUrb i g1
     else Inr g)"

text \<open>
  The \<open>for\<close> loop over the packets. The second \<open>if\<close> of the body tests the packet's
  \<open>nStatus\<close> after the payload has been handled and only executes \<open>continue\<close> as the
  last statement of the body: both of its branches go on with the next packet.
\<close>

fun packet_loop ::
  "(nat \<Rightarrow> bool) \<Rightarrow> USBHST_URB \<Rightarrow> nat list \<Rightarrow> globals \<Rightarrow> (fault \<times> globals) + globals" where
  "packet_loop spawn_ok pUrb [] g = Inr g"
| "packet_loop spawn_ok pUrb (i # js) g =
     (case process_packet (spawn_ok i) pUrb i g of
        Inl f \<Rightarrow> Inl f
      | Inr g' \<Rightarrow>
          if nStatus (pTransferSpecificData pUrb ! i) \<noteq> USBHST_SUCCESS
          then packet_loop spawn_ok pUrb js g'
          else packet_loop spawn_ok pUrb js g')"

text \<open>The second loop: every descriptor gets its slot size and slot offset back.\<close>

definition refill :: "USBHST_URB \<Rightarrow> USBHST_URB" where
  "refill pUrb = pUrb\<lparr>pTransferSpecificData :=
      map (\<lambda>(i, d). d\<lparr>uLength := of_nat ISOCHRONOUS_BUFFER_SIZE,
                         uOffset := of_nat (i * ISOCHRONOUS_BUFFER_SIZE)\<rparr>)
        (enumerate 0 (pTransferSpecificData pUrb))\<rparr>"

text \<open>
  The callback. \<open>Inr g\<close>: it returned \<open>USBHST_SUCCESS\<close> with globals \<open>g\<close>, after
  resubmitting the URB unless \<open>aborted\<close> is set. \<open>Inl (Task_Spawn_Failed, g)\<close>: it returned
  \<open>ERROR\<close> from inside the loop. The loop that refills the descriptors acts on the URB
  only (\<open>refill\<close>); the next completed URB is an input of its own callback.
\<close>

definition Isochronous_Completion_Callback ::
  "(nat \<Rightarrow> bool) \<Rightarrow> USBHST_URB \<Rightarrow> globals \<Rightarrow> (fault \<times> globals) + globals" where
  "Isochronous_Completion_Callback spawn_ok pUrb g =
     (case packet_loop spawn_ok pUrb [0..<NUMBER_OF_ISOCHRONOUS_PACKETS] g of
        Inl f \<Rightarrow> Inl f
      | Inr g1 \<Rightarrow> if aborted g1 = 0 then Inr (call Iso_URB_Submit g1) else Inr g1)"


text \<open>Observations on an outcome and on the record of calls.\<close>

definition final :: "(fault \<times> globals) + globals \<Rightarrow> globals" where
  "final r = (case r of Inl (f, g) \<Rightarrow> g | Inr g \<Rightarrow> g)"

definition fault_of :: "(fault \<times> globals) + globals \<Rightarrow> fault option" where
  "fault_of r = (case r of Inl (f, g) \<Rightarrow> Some f | Inr g \<Rightarrow> None)"

definition boundaries :: "globals \<Rightarrow> nat" where
  "boundaries g = count_list (trace g) Task_Spawn_processImage"

definition resubmissions :: "globals \<Rightarrow> nat" where
  "resubmissions g = count_list (trace g) Iso_URB_Submit"

section \<open>Frame sink: \<open>dump_ppm\<close>\<close>

text \<open>
  The 22 bytes of \<open>new_header\<close>: the lines \<open>P6\<close>, \<open>#test\<close>, \<open>160 120\<close> and \<open>255\<close>, each
  ended by a newline, and the terminating zero.
\<close>

definition new_header :: "u8 list" where
  "new_header = [0x50, 0x36, 0x0A, 0x23, 0x74, 0x65, 0x73, 0x74, 0x0A, 0x31, 0x36, 0x30, 0x20,
                 0x31, 0x32, 0x30, 0x0A, 0x32, 0x35, 0x35, 0x0A, 0x00]"

text \<open>
  \<open>write(fd, buf, nbytes)\<close> with the value \<open>r\<close> the operating system returns for it: the
  first \<open>r\<close> of the requested bytes are appended to the file (none when \<open>r\<close> is negative),
  and \<open>r\<close> is stored in the \<open>UINT32\<close> variable \<open>written\<close>.
\<close>

definition write_call :: "u8 list \<Rightarrow> u8 list \<Rightarrow> u32 \<Rightarrow> int \<Rightarrow> u8 list \<times> u32" where
  "write_call file buf nbytes r =
     (if 0 \<le> r then file @ take (nat r) (take (unat nbytes) buf) else file, word_of_int r)"

text \<open>
  The \<open>do { written = write(dumpfd, p, size); total += written; } while (total < size)\<close>
  loop, driven by the list of values the successive \<open>write\<close> calls return. Every call
  passes \<open>p\<close> and \<open>size\<close> unchanged. \<open>None\<close>: the list ended while the loop was still
  running.
\<close>

fun write_loop :: "u8 list \<Rightarrow> u32 \<Rightarrow> u32 \<Rightarrow> int list \<Rightarrow> u8 list \<Rightarrow> u8 list option" where
  "write_loop p size' total0 [] file = None"
| "write_loop p size' total0 (r # rs) file =
     (case write_call file p size' r of
        (file', written) \<Rightarrow>
          let total1 = total0 + written
          in if total1 < size' then write_loop p size' total1 rs file' else Some file')"

text \<open>
  \<open>dump_ppm(p, size, tag)\<close>: the header write (21 bytes, its return value unused), the
  \<open>do \<dots> while\<close> loop, then \<open>semGive(synch_sem)\<close>. The result is the content of the
  file and the call made after the loop; \<open>tag\<close> only enters the file name.
\<close>

definition dump_ppm ::
  "u8 list \<Rightarrow> u32 \<Rightarrow> u16 \<Rightarrow> int list \<Rightarrow> (u8 list \<times> event list) option" where
  "dump_ppm p size' tag rets =
     (case rets of
        [] \<Rightarrow> None
      | r0 # rs \<Rightarrow>
          (case write_call [] new_header 21 r0 of
             (file0, written) \<Rightarrow>
               (case write_loop p size' 0 rs file0 of
                  None \<Rightarrow> None
                | Some file \<Rightarrow> Some (file, [Sem_Give]))))"

section \<open>Negotiator: \<open>Add_Device_Callback\<close>\<close>

text \<open>
  What the host stack and the operating system answer during an attach. For a control
  transfer: whether the two allocations succeed, the status \<open>usbHstURBSubmit\<close> returns,
  and how the transfer completes: the completion callback is called with the URB (the
  URB's final status, and the bytes the device sent in the data stage), or with a null
  pointer.
\<close>

datatype completion = Completed USBHST_STATUS "u8 list" | Completed_Null

record control_env =
  urb_alloc :: bool
  setup_alloc :: bool
  submit :: USBHST_STATUS
  completes :: completion

record iso_env =
  iso_urb_alloc :: bool
  desc_alloc :: bool
  iso_submit :: USBHST_STATUS

record attach_env =
  get_configuration :: "USBHST_STATUS \<times> u8"
  set_configuration :: USBHST_STATUS
  control :: "nat \<Rightarrow> control_env"
  set_interface :: USBHST_STATUS
  setup_info_alloc :: bool
  pipe_prepare :: USBHST_STATUS
  iso :: "nat \<Rightarrow> iso_env"

text \<open>
  The data stage of a control transfer on the 26-byte buffer \<open>data\<close>: a device-to-host
  request (bit 7 of \<open>bmRequestType\<close>) stores the device's bytes at the start of the buffer,
  a host-to-device request leaves the buffer as it is.
\<close>

definition data_stage :: "u8 \<Rightarrow> u8 list \<Rightarrow> u8 list \<Rightarrow> u8 list" where
  "data_stage uRequestType resp buf =
     (if bit uRequestType 7
      then take (min (length resp) (length buf)) resp @ drop (length resp) buf
      else buf)"

text \<open>
  \<open>Control_Completion_Callback\<close>: the status returned to the stack, whether
  \<open>OS_RELEASE_EVENT\<close> was called, and the globals.
\<close>

definition Control_Completion_Callback :: "bool \<Rightarrow> globals \<Rightarrow> USBHST_STATUS \<times> bool \<times> globals" where
  "Control_Completion_Callback pUrb_is_null g =
     (if pUrb_is_null then (USBHST_FAILURE, False, shutDown g)
      else (USBHST_SUCCESS, True, g))"

text \<open>
  \<open>Control_Transfer\<close>. After a successful submit it waits on the event without timeout,
  so it returns only if the callback released the event: \<open>None\<close> is the wait that never
  ends.
\<close>

definition Control_Transfer ::
  "control_env \<Rightarrow> u8 \<Rightarrow> u8 \<Rightarrow> u16 \<Rightarrow> u16 \<Rightarrow> globals \<Rightarrow> USBHST_STATUS option \<times> globals" where
  "Control_Transfer env uRequestType uRequest uValue uIndex g =
     (if \<not> urb_alloc env then (Some ERROR, shutDown g)
      else if \<not> setup_alloc env then (Some ERROR, shutDown g)
      else
        let g1 = call (Control_URB_Submit uRequestType uRequest uValue uIndex (data g)) g
        in if submit env = USBHST_SUCCESS then
             (case completes env of
                Completed urb_status resp \<Rightarrow>
                  (case Control_Completion_Callback False
                          (g1\<lparr>data := data_stage uRequestType resp (data g1)\<rparr>) of
                     (ret, released, g2) \<Rightarrow>
                       if released then (Some urb_status, g2) else (None, g2))
              | Completed_Null \<Rightarrow>
                  (case Control_Completion_Callback True g1 of
                     (ret, released, g2) \<Rightarrow>
                       if released then (Some USBHST_SUCCESS, g2) else (None, g2)))
           else (Some (submit env), g1))"

text \<open>
  \<open>Isochronous_Transfer\<close> waits on its event after a successful submit as well, and
  \<open>Isochronous_Completion_Callback\<close> never releases an event.
\<close>

definition Isochronous_Transfer :: "iso_env \<Rightarrow> globals \<Rightarrow> USBHST_STATUS option \<times> globals" where
  "Isochronous_Transfer env g =
     (if \<not> iso_urb_alloc env then (Some ERROR, shutDown g)
      else if \<not> desc_alloc env then (Some USBHST_FAILURE, shutDown g)
      else
        let g1 = call Iso_URB_Submit g
        in if iso_submit env = USBHST_SUCCESS then (None, g1)
           else (Some (iso_submit env), g1))"

fun start_transfers ::
  "(nat \<Rightarrow> iso_env) \<Rightarrow> nat list \<Rightarrow> globals \<Rightarrow> USBHST_STATUS option \<times> globals" where
  "start_transfers env [] g = (Some USBHST_SUCCESS, g)"
| "start_transfers env (i # js) g =
     (case Isochronous_Transfer (env i) g of
        (None, g1) \<Rightarrow> (None, g1)
      | (Some st, g1) \<Rightarrow>
          if st \<noteq> USBHST_SUCCESS then (Some USBHST_FAILURE, shutDown g1)
          else start_transfers env js g1)"

text \<open>\<open>Add_Device_Callback\<close>; the comparisons with \<open>OK\<close> are comparisons with success.\<close>

definition Add_Device_Callback :: "attach_env \<Rightarrow> globals \<Rightarrow> USBHST_STATUS option \<times> globals" where
  "Add_Device_Callback env g =
     (let g = call Get_Configuration g;
          curr_config = snd (get_configuration env)
      in if fst (get_configuration env) \<noteq> USBHST_SUCCESS then (Some ERROR, shutDown g)
      else
        let g = call (Set_Configuration curr_config) g
        in if set_configuration env \<noteq> USBHST_SUCCESS then (Some ERROR, shutDown g)
        else
          (case Control_Transfer (control env 0) USB_DIRECTION_OUT USB_SET_CURRENT
                 UVC_VS_PROBE_CONTROL USB_SETUP_PACKET_INDEX g of
            (None, g) \<Rightarrow> (None, g)
          | (Some st1, g) \<Rightarrow>
              if st1 \<noteq> USBHST_SUCCESS then (Some USBHST_FAILURE, shutDown g)
              else
                (case Control_Transfer (control env 1) USB_DIRECTION_IN USB_GET_CURRENT
                       UVC_VS_PROBE_CONTROL USB_SETUP_PACKET_INDEX g of
                  (None, g) \<Rightarrow> (None, g)
                | (Some st2, g) \<Rightarrow>
                    if st2 \<noteq> USBHST_SUCCESS then (Some USBHST_FAILURE, shutDown g)
                    else
                      (case Control_Transfer (control env 2) USB_DIRECTION_OUT USB_SET_CURRENT
                             UVC_VS_COMMIT_CONTROL USB_SETUP_PACKET_INDEX g of
                        (None, g) \<Rightarrow> (None, g)
                      | (Some st3, g) \<Rightarrow>
                          if st3 \<noteq> USBHST_SUCCESS then (Some USBHST_FAILURE, shutDown g)
                          else
                            let g = call (Set_Interface INTERFACE ALTERNATE_INTERFACE) g
                            in if set_interface env \<noteq> USBHST_SUCCESS
                               then (Some ERROR, shutDown g)
                               else if \<not> setup_info_alloc env then (Some ERROR, shutDown g)
                               else
                                 let g = call Pipe_Prepare g
                                 in if pipe_prepare env \<noteq> USBHST_SUCCESS
                                    then (Some ERROR, shutDown g)
                                    else start_transfers (iso env) [0..<NO_OF_TRANSFERS] g))))"

text \<open>Observations on the record of calls of an attach, and on the answers.\<close>

fun is_control_submit :: "event \<Rightarrow> bool" where
  "is_control_submit (Control_URB_Submit t r v i d) = True"
| "is_control_submit e = False"

fun is_streaming_step :: "event \<Rightarrow> bool" where
  "is_streaming_step (Set_Interface a b) = True"
| "is_streaming_step Pipe_Prepare = True"
| "is_streaming_step Iso_URB_Submit = True"
| "is_streaming_step e = False"

definition control_submits :: "event list \<Rightarrow> event list" where
  "control_submits evs = filter is_control_submit evs"

definition streaming_steps :: "event list \<Rightarrow> event list" where
  "streaming_steps evs = filter is_streaming_step evs"

definition new_events :: "globals \<Rightarrow> globals \<Rightarrow> event list" where
  "new_events g g' = drop (length (trace g)) (trace g')"

definition transfer_succeeds :: "control_env \<Rightarrow> u8 list \<Rightarrow> bool" where
  "transfer_succeeds e resp =
     (urb_alloc e \<and> setup_alloc e \<and> submit e = USBHST_SUCCESS
      \<and> completes e = Completed USBHST_SUCCESS resp)"

definition transfer_fails :: "control_env \<Rightarrow> bool" where
  "transfer_fails e =
     (if urb_alloc e \<and> setup_alloc e \<and> submit e = USBHST_SUCCESS
      then (case completes e of
              Completed st resp \<Rightarrow> st \<noteq> USBHST_SUCCESS
            | Completed_Null \<Rightarrow> False)
      else True)"

definition transfer_completes_null :: "control_env \<Rightarrow> bool" where
  "transfer_completes_null e =
     (urb_alloc e \<and> setup_alloc e \<and> submit e = USBHST_SUCCESS \<and> completes e = Completed_Null)"

section \<open>Inputs and invariants used in the proofs\<close>

text \<open>
  A completed transfer whose buffer holds the byte \<open>b\<close> everywhere (so every stream
  header has FID bit \<open>b AND 1\<close>), with the given leading descriptors; the remaining
  packets report the header-only length.
\<close>

definition descriptor :: "nat \<Rightarrow> USBHST_STATUS \<Rightarrow> USBHST_ISO_PACKET_DESC" where
  "descriptor len st = \<lparr>uLength = of_nat len, uOffset = 0, nStatus = st\<rparr>"

definition test_urb :: "u8 \<Rightarrow> USBHST_ISO_PACKET_DESC list \<Rightarrow> USBHST_URB" where
  "test_urb b ds =
     \<lparr>pTransferBuffer = replicate ISOCHRONOUS_TRANSFER_LENGTH b,
      pTransferSpecificData = ds @ replicate (NUMBER_OF_ISOCHRONOUS_PACKETS - length ds)
                                       (descriptor HEADER_LENGTH USBHST_SUCCESS)\<rparr>"



definition spawn_succeeds :: "nat \<Rightarrow> bool" where
  "spawn_succeeds i = True"






text \<open>
  Answers for the examples: a device that completes every control transfer and answers
  the GET_CUR probe with \<open>device_answer\<close>; one that answers it with three bytes only;
  one whose COMMIT transfer completes with a failure status; one for which the first
  completion callback gets a null pointer.
\<close>

definition answering :: "USBHST_STATUS \<Rightarrow> u8 list \<Rightarrow> control_env" where
  "answering st resp =
     \<lparr>urb_alloc = True, setup_alloc = True, submit = USBHST_SUCCESS,
      completes = Completed st resp\<rparr>"

definition null_completion :: control_env where
  "null_completion =
     \<lparr>urb_alloc = True, setup_alloc = True, submit = USBHST_SUCCESS,
      completes = Completed_Null\<rparr>"

definition device_answer :: "u8 list" where
  "device_answer = [0x01, 0x00, 0x01, 0x02, 0x15, 0x16, 0x05] @ replicate 19 0"

definition healthy_device :: "nat \<Rightarrow> control_env" where
  "healthy_device k = answering USBHST_SUCCESS (if k = 1 then device_answer else [])"

definition short_answer :: "nat \<Rightarrow> control_env" where
  "short_answer k = answering USBHST_SUCCESS (if k = 1 then [9, 9, 9] else [])"

definition commit_fails :: "nat \<Rightarrow> control_env" where
  "commit_fails k = (if k = 2 then answering USBHST_FAILURE [] else healthy_device k)"

definition null_at_probe :: "nat \<Rightarrow> control_env" where
  "null_at_probe k = (if k = 0 then null_completion else healthy_device k)"

definition streaming_ok :: "nat \<Rightarrow> iso_env" where
  "streaming_ok i = \<lparr>iso_urb_alloc = True, desc_alloc = True, iso_submit = USBHST_SUCCESS\<rparr>"

definition attach :: "(nat \<Rightarrow> control_env) \<Rightarrow> attach_env" where
  "attach c =
     \<lparr>get_configuration = (USBHST_SUCCESS, 1), set_configuration = USBHST_SUCCESS,
      control = c, set_interface = USBHST_SUCCESS, setup_info_alloc = True,
      pipe_prepare = USBHST_SUCCESS, iso = streaming_ok\<rparr>"

section \<open>Proofs: format converter\<close>

lemma sint_wi32:
  "- (2 ^ 31) \<le> x \<Longrightarrow> x < 2 ^ 31 \<Longrightarrow> sint (word_of_int x :: 32 word) = x"
  by (simp add: sint_sbintrunc' signed_take_bit_int_eq_self)

lemma sample_arg_eq: "sample_arg b = ucast b"
  unfolding sample_arg_def
  by (rule bit_word_eqI) (auto simp: bit_simps min_def dest: bit_imp_le_length)

lemma narrow_small:
  fixes w :: "32 word"
  assumes "0 \<le> sint w" "sint w \<le> 255"
  shows "uint (ucast w :: 8 word) = sint w"
proof -
  have "uint w = take_bit 32 (sint w)" by (simp add: uint_sint)
  also have "\<dots> = sint w" using assms by (simp add: take_bit_int_eq_self)
  finally have e: "uint w = sint w" .
  have "take_bit 8 (sint w) = sint w"
    using assms by (simp add: take_bit_int_eq_self)
  then show ?thesis by (simp add: unsigned_ucast_eq e)
qed

lemma saturate_store:
  fixes w :: "32 word"
  shows "uint (ucast (if (if 255 <s w then 255 else w) <s 0 then 0
                      else (if 255 <s w then 255 else w)) :: 8 word)
         = clamp (sint w) 0 255"
proof -
  consider "sint w < 0" | "0 \<le> sint w" "sint w \<le> 255" | "255 < sint w" by linarith
  then show ?thesis
  proof cases
    case 1
    then show ?thesis by (simp add: clamp_def word_sless_alt)
  next
    case 2
    with narrow_small [of w] show ?thesis by (simp add: clamp_def word_sless_alt)
  next
    case 3
    then show ?thesis by (simp add: clamp_def word_sless_alt)
  qed
qed

lemma byte_term_bound:
  fixes y :: "8 word"
  assumes "\<bar>a\<bar> \<le> 1000" "0 \<le> k" "k \<le> 128"
  shows "\<bar>a * (uint y - k)\<bar> \<le> 256000"
proof -
  have y0: "0 \<le> uint y" by simp
  have y1: "uint y < 256" using uint_bounded [of y] by simp
  from y0 y1 assms(2,3) have "\<bar>uint y - k\<bar> \<le> 256" by linarith
  with assms(1) have "\<bar>a\<bar> * \<bar>uint y - k\<bar> \<le> 1000 * 256"
    by (intro mult_mono) simp_all
  then show ?thesis by (simp add: abs_mult)
qed

lemma channel_value:
  fixes y u v :: "8 word"
  assumes "\<bar>a\<bar> \<le> 1000" "\<bar>b\<bar> \<le> 1000" "\<bar>c\<bar> \<le> 1000"
  shows "sint (signed_drop_bit 8 (word_of_int
            (a * (uint y - 16) + b * (uint u - 128) + c * (uint v - 128) + 128) :: 32 word))
     = drop_bit 8 (a * (uint y - 16) + b * (uint u - 128) + c * (uint v - 128) + 128)"
proof -
  have "\<bar>a * (uint y - 16)\<bar> \<le> 256000" "\<bar>b * (uint u - 128)\<bar> \<le> 256000"
    "\<bar>c * (uint v - 128)\<bar> \<le> 256000"
    by (rule byte_term_bound [OF assms(1)], simp, simp)
      (rule byte_term_bound [OF assms(2)], simp, simp,
       rule byte_term_bound [OF assms(3)], simp, simp)
  then have "- (2 ^ 31) \<le> a * (uint y - 16) + b * (uint u - 128) + c * (uint v - 128) + 128"
    and "a * (uint y - 16) + b * (uint u - 128) + c * (uint v - 128) + 128 < 2 ^ 31"
    by simp_all
  then show ?thesis
    by (simp only: sint_signed_drop_bit_eq sint_wi32)
qed

lemma YUV2RGB_bytes:
  "rgb_values (YUV2RGB (sample_arg y) (sample_arg u) (sample_arg v))
     = convert_spec (uint y) (uint u) (uint v)"
proof -
  let ?Y = "uint y - 16" and ?U = "uint u - 128" and ?V = "uint v - 128"
  have cr: "sint (signed_drop_bit 8
        (298 * (sample_arg y - 16) + 409 * (sample_arg v - 128) + 128))
      = drop_bit 8 (298 * ?Y + 409 * ?V + 128)"
    using channel_value [of 298 0 409 y u v] by (simp add: sample_arg_eq)
  have cg: "sint (signed_drop_bit 8
        (298 * (sample_arg y - 16) - 100 * (sample_arg u - 128) - 208 * (sample_arg v - 128) + 128))
      = drop_bit 8 (298 * ?Y - 100 * ?U - 208 * ?V + 128)"
    using channel_value [of 298 "- 100" "- 208" y u v] by (simp add: sample_arg_eq)
  have cb: "sint (signed_drop_bit 8
        (298 * (sample_arg y - 16) + 516 * (sample_arg u - 128) + 128))
      = drop_bit 8 (298 * ?Y + 516 * ?U + 128)"
    using channel_value [of 298 516 0 y u v] by (simp add: sample_arg_eq)
  show ?thesis
    unfolding YUV2RGB_def convert_spec_def rgb_values_def Let_def prod.case
      saturate_store cr cg cb ..
qed

text \<open>
  C2. For every triple of bytes \<open>(y, u, v)\<close>, as \<open>processImage\<close> passes them, the bytes that
  \<open>YUV2RGB\<close> stores are the specification's clamped fixed-point values computed in exact
  integer arithmetic (no intermediate 32-bit overflow), saturating below 0 and above 255;
  \<open>(16, 128, 128)\<close> gives \<open>(0, 0, 0)\<close> and \<open>(235, 128, 128)\<close> gives \<open>(255, 255, 255)\<close>.
\<close>

theorem C2_YUV2RGB_matches_spec:
  "rgb_values (YUV2RGB (sample_arg y) (sample_arg u) (sample_arg v))
     = convert_spec (uint y) (uint u) (uint v)
   \<and> YUV2RGB (sample_arg 16) (sample_arg 128) (sample_arg 128) = (0, 0, 0)
   \<and> YUV2RGB (sample_arg 235) (sample_arg 128) (sample_arg 128) = (255, 255, 255)"
proof (intro conjI)
  show "rgb_values (YUV2RGB (sample_arg y) (sample_arg u) (sample_arg v))
     = convert_spec (uint y) (uint u) (uint v)"
    by (rule YUV2RGB_bytes)
  show "YUV2RGB (sample_arg 16) (sample_arg 128) (sample_arg 128) = (0, 0, 0)"
    by (simp add: YUV2RGB_def sample_arg_eq)
  show "YUV2RGB (sample_arg 235) (sample_arg 128) (sample_arg 128) = (255, 255, 255)"
    by (simp add: YUV2RGB_def sample_arg_eq word_sless_alt)
qed

section \<open>Proofs: frame reassembler\<close>

lemma process_packet_header_only:
  "uLength (pTransferSpecificData pUrb ! i) = of_nat HEADER_LENGTH \<Longrightarrow> process_packet ok pUrb i g = Inr g"
  by (simp add: process_packet_def)

lemma final_copy_payload:
  "mem_h (final (copy_payload pUrb i g)) = mem_h g"
  "frameCount (final (copy_payload pUrb i g)) = frameCount g"
  "aborted (final (copy_payload pUrb i g)) = aborted g"
  "first (final (copy_payload pUrb i g)) = first g"
  "boundaries (final (copy_payload pUrb i g)) = boundaries g"
  "resubmissions (final (copy_payload pUrb i g)) = resubmissions g"
  by (simp_all add: copy_payload_def final_def call_def Let_def boundaries_def resubmissions_def split: option.splits)

lemma boundary_step:
  "uLength (pTransferSpecificData pUrb ! i) \<noteq> of_nat HEADER_LENGTH \<Longrightarrow> mem_h g \<noteq> fid_bit pUrb i \<Longrightarrow>
   mem_h (final (process_packet ok pUrb i g)) = fid_bit pUrb i \<and>
   frameCount (final (process_packet ok pUrb i g)) = frameCount g - 1 \<and>
   boundaries (final (process_packet ok pUrb i g)) = boundaries g + 1"
  by (simp add: process_packet_def Let_def final_copy_payload)
    (simp add: final_def call_def shutDown_def boundaries_def)

lemma continue_step:
  "uLength (pTransferSpecificData pUrb ! i) \<noteq> of_nat HEADER_LENGTH \<Longrightarrow> mem_h g = fid_bit pUrb i \<Longrightarrow>
   mem_h (final (process_packet ok pUrb i g)) = mem_h g \<and>
   frameCount (final (process_packet ok pUrb i g)) = frameCount g \<and>
   boundaries (final (process_packet ok pUrb i g)) = boundaries g"
  by (simp add: process_packet_def Let_def final_copy_payload)
    (simp add: final_def call_def shutDown_def boundaries_def)

lemmas macro_defs = NUMBER_OF_ISOCHRONOUS_PACKETS_def HEADER_LENGTH_def ISOCHRONOUS_BUFFER_SIZE_def
  ISOCHRONOUS_TRANSFER_LENGTH_def HRES_def VRES_def FRAME_COUNT_def

lemma packets_upt: "[0..<12] = [0, 1, 2, 3, 4, 5, 6, 7, 8, 9, 10, 11::nat]"
  by (simp add: upt_rec)

lemmas eval_defs = Isochronous_Completion_Callback_def packets_upt process_packet_def copy_payload_def
  memcpy_def fid_bit_def call_def shutDown_def final_def fault_of_def test_urb_def descriptor_def
  fill_global_def initial_globals_def macro_defs Let_def nth_append spawn_succeeds_def

text \<open>
  C3. A packet whose descriptor reports the header-only length leaves every global and
  the record of calls unchanged, whatever its FID bit, and the loop goes on with the next
  packet as if it were not there. For any other length the loop body
  counts a frame boundary (flips the stored frame id, decrements the quota, spawns
  \<open>processImage\<close>) exactly when the packet's FID bit differs from the stored frame id;
  neither the length nor the offset enters that decision.
\<close>

theorem C3_header_only_skipped:
  "(uLength (pTransferSpecificData pUrb ! i) = of_nat HEADER_LENGTH \<longrightarrow>
      process_packet spawn_ok pUrb i g = Inr g
      \<and> packet_loop oracle pUrb (i # js) g = packet_loop oracle pUrb js g)
   \<and> (uLength (pTransferSpecificData pUrb ! i) \<noteq> of_nat HEADER_LENGTH \<longrightarrow>
      boundaries (final (process_packet spawn_ok pUrb i g))
        = boundaries g + (if fid_bit pUrb i \<noteq> mem_h g then 1 else 0)
      \<and> frameCount (final (process_packet spawn_ok pUrb i g))
        = (if fid_bit pUrb i \<noteq> mem_h g then frameCount g - 1 else frameCount g)
      \<and> mem_h (final (process_packet spawn_ok pUrb i g)) = fid_bit pUrb i)"
proof (intro conjI impI)
  assume "uLength (pTransferSpecificData pUrb ! i) = of_nat HEADER_LENGTH"
  then show "process_packet spawn_ok pUrb i g = Inr g"
    by (rule process_packet_header_only)
next
  assume "uLength (pTransferSpecificData pUrb ! i) = of_nat HEADER_LENGTH"
  then show "packet_loop oracle pUrb (i # js) g = packet_loop oracle pUrb js g"
    by (simp add: process_packet_header_only)
next
  assume len: "uLength (pTransferSpecificData pUrb ! i) \<noteq> of_nat HEADER_LENGTH"
  show "boundaries (final (process_packet spawn_ok pUrb i g))
        = boundaries g + (if fid_bit pUrb i \<noteq> mem_h g then 1 else 0)"
    using boundary_step [OF len, of g spawn_ok] continue_step [OF len, of g spawn_ok]
    by (cases "mem_h g = fid_bit pUrb i") auto
  show "frameCount (final (process_packet spawn_ok pUrb i g))
        = (if fid_bit pUrb i \<noteq> mem_h g then frameCount g - 1 else frameCount g)"
    using boundary_step [OF len, of g spawn_ok] continue_step [OF len, of g spawn_ok]
    by (cases "mem_h g = fid_bit pUrb i") auto
  show "mem_h (final (process_packet spawn_ok pUrb i g)) = fid_bit pUrb i"
    using boundary_step [OF len, of g spawn_ok] continue_step [OF len, of g spawn_ok]
    by (cases "mem_h g = fid_bit pUrb i") auto
qed

text \<open>
  C3, at concrete inputs: a header-only packet whose FID bit differs from the stored frame
  id changes nothing; a payload packet with a differing FID bit counts one boundary, one
  with the same FID bit none.
\<close>

theorem C3_witness:
  "fid_bit (test_urb 1 []) 0 \<noteq> mem_h (fill_global initial_globals)
   \<and> process_packet True (test_urb 1 []) 0 (fill_global initial_globals)
       = Inr (fill_global initial_globals)
   \<and> boundaries (final (process_packet True (test_urb 1 [descriptor 944 USBHST_SUCCESS]) 0
         (fill_global initial_globals))) = 1
   \<and> boundaries (final (process_packet True (test_urb 0 [descriptor 944 USBHST_SUCCESS]) 0
         (fill_global initial_globals))) = 0"
proof -
  let ?g = "fill_global initial_globals"
  have h: "uLength (pTransferSpecificData (test_urb 1 []) ! 0) = of_nat HEADER_LENGTH"
    by (simp add: test_urb_def descriptor_def macro_defs)
  have p: "uLength (pTransferSpecificData (test_urb b [descriptor 944 USBHST_SUCCESS]) ! 0)
      \<noteq> of_nat HEADER_LENGTH" for b
    by (simp add: test_urb_def descriptor_def macro_defs)
  have f: "fid_bit (test_urb 1 []) 0 \<noteq> mem_h ?g"
    "fid_bit (test_urb 1 [descriptor 944 USBHST_SUCCESS]) 0 \<noteq> mem_h ?g"
    "fid_bit (test_urb 0 [descriptor 944 USBHST_SUCCESS]) 0 = mem_h ?g"
    by (simp_all add: fid_bit_def test_urb_def fill_global_def initial_globals_def macro_defs)
  have b0: "boundaries ?g = 0"
    by (simp add: boundaries_def fill_global_def initial_globals_def)
  from C3_header_only_skipped [of "test_urb 1 []" 0 True ?g] h
  have "process_packet True (test_urb 1 []) 0 ?g = Inr ?g" by simp
  moreover from C3_header_only_skipped [of "test_urb 1 [descriptor 944 USBHST_SUCCESS]" 0 True ?g] p f b0
  have "boundaries (final (process_packet True (test_urb 1 [descriptor 944 USBHST_SUCCESS]) 0 ?g)) = 1"
    by simp
  moreover from C3_header_only_skipped [of "test_urb 0 [descriptor 944 USBHST_SUCCESS]" 0 True ?g] p f b0
  have "boundaries (final (process_packet True (test_urb 0 [descriptor 944 USBHST_SUCCESS]) 0 ?g)) = 0"
    by simp
  ultimately show ?thesis using f(1) by simp
qed

lemma short_length_wraps:
  fixes len :: u32
  assumes "len < of_nat HEADER_LENGTH"
  shows "unat (len - of_nat HEADER_LENGTH) = 2 ^ 32 - 12 + unat len"
proof -
  from assms have "unat len < 12" by (simp add: HEADER_LENGTH_def word_less_nat_alt)
  then show ?thesis
    by (simp add: HEADER_LENGTH_def unat_sub_if')
qed

lemma copy_payload_overrun:
  assumes "unat (offset g) + unat (uLength (pTransferSpecificData pUrb ! i) - of_nat HEADER_LENGTH)
             > length (image_buffer g)"
  shows "copy_payload pUrb i g =
     Inl (Memcpy_Overrun (offset g) (uLength (pTransferSpecificData pUrb ! i) - of_nat HEADER_LENGTH),
          call (Memcpy_image_buffer (offset g)
                 (uLength (pTransferSpecificData pUrb ! i) - of_nat HEADER_LENGTH)) g)"
  using assms by (simp add: copy_payload_def Let_def memcpy_def call_def)

text \<open>
  C10. A packet whose descriptor reports fewer than 12 bytes is not skipped: the copy
  length is the \<open>UINT32\<close> value \<open>(length - 12) mod 2^32\<close>, at least \<open>2^32 - 12\<close>, and
  \<open>memcpy\<close> is called with it (far past the end of \<open>image_buffer\<close>).
\<close>

theorem C10_short_packet_not_skipped:
  assumes short: "uLength (pTransferSpecificData pUrb ! i) < of_nat HEADER_LENGTH"
      and img: "length (image_buffer g) = HRES * VRES * 2"
      and spawn: "spawn_ok"
  shows "(\<exists>off g'. process_packet spawn_ok pUrb i g
            = Inl (Memcpy_Overrun off (uLength (pTransferSpecificData pUrb ! i) - of_nat HEADER_LENGTH), g')
          \<and> last (trace g') = Memcpy_image_buffer off
                (uLength (pTransferSpecificData pUrb ! i) - of_nat HEADER_LENGTH))
    \<and> int (unat (uLength (pTransferSpecificData pUrb ! i) - of_nat HEADER_LENGTH))
           = (int (unat (uLength (pTransferSpecificData pUrb ! i))) - 12) mod 2 ^ 32
    \<and> 2 ^ 32 - 12 \<le> unat (uLength (pTransferSpecificData pUrb ! i) - of_nat HEADER_LENGTH)"
proof (intro conjI)
  let ?len = "uLength (pTransferSpecificData pUrb ! i)"
  let ?n = "?len - of_nat HEADER_LENGTH"
  have n: "unat ?n = 2 ^ 32 - 12 + unat ?len" using short by (rule short_length_wraps)
  from short have ne: "?len \<noteq> of_nat HEADER_LENGTH" by auto
  have big: "length (image_buffer h) = HRES * VRES * 2 \<Longrightarrow>
     length (image_buffer h) < unat (offset h) + unat ?n" for h :: globals
    by (simp add: n HRES_def VRES_def)
  show "\<exists>off g'. process_packet spawn_ok pUrb i g = Inl (Memcpy_Overrun off ?n, g')
          \<and> last (trace g') = Memcpy_image_buffer off ?n"
  proof (cases "mem_h g = fid_bit pUrb i")
    case True
    let ?h = "if first g = 1 then (call Sem_Take g)\<lparr>first := 0\<rparr> else g"
    have "length (image_buffer ?h) = HRES * VRES * 2" using img by (simp add: call_def)
    from copy_payload_overrun [OF big [OF this]] True ne show ?thesis
      by (simp add: process_packet_def Let_def call_def)
  next
    case False
    let ?h = "(call Memset_image_buffer ((call Task_Spawn_processImage
         (if frameCount g - 1 = 0 then g\<lparr>mem_h := fid_bit pUrb i, end_of_image := 1, offset := 0,
                     frameCount := frameCount g - 1, aborted := 1\<rparr>
          else g\<lparr>mem_h := fid_bit pUrb i, end_of_image := 1, offset := 0,
                     frameCount := frameCount g - 1\<rparr>))\<lparr>first := 1\<rparr>))
                         \<lparr>image_buffer := replicate (HRES * VRES * 2) 0\<rparr>"
    have "length (image_buffer ?h) = HRES * VRES * 2" by simp
    from copy_payload_overrun [OF big [OF this]] False ne spawn show ?thesis
      by (simp add: process_packet_def Let_def call_def)
  qed
  show "int (unat ?n) = (int (unat ?len) - 12) mod 2 ^ 32"
  proof -
    have k: "uint ?len < 12" using short by (simp add: HEADER_LENGTH_def word_less_alt)
    have "(int (unat ?len) - 12) mod 2 ^ 32 = (int (unat ?len) - 12 + 2 ^ 32) mod 2 ^ 32"
      by (rule mod_add_self2 [symmetric])
    also have "\<dots> = int (unat ?len) - 12 + 2 ^ 32"
      using k by (intro mod_pos_pos_trivial) simp_all
    finally show ?thesis by (simp add: n)
  qed
  show "2 ^ 32 - 12 \<le> unat ?n" by (simp add: n)
qed

text \<open>C10, at a packet of reported length 0: the copy length is \<open>2^32 - 12\<close>.\<close>

theorem C10_witness:
  "\<exists>off g'. process_packet True (test_urb 0 [descriptor 0 USBHST_SUCCESS]) 0 (fill_global initial_globals)
       = Inl (Memcpy_Overrun off 4294967284, g')
     \<and> last (trace g') = Memcpy_image_buffer off 4294967284"
proof -
  let ?u = "test_urb 0 [descriptor 0 USBHST_SUCCESS]"
  have len: "uLength (pTransferSpecificData ?u ! 0) = 0"
    by (simp add: test_urb_def descriptor_def)
  then have short: "uLength (pTransferSpecificData ?u ! 0) < of_nat HEADER_LENGTH"
    by (simp add: HEADER_LENGTH_def)
  have img: "length (image_buffer (fill_global initial_globals)) = HRES * VRES * 2"
    by (simp add: fill_global_def initial_globals_def)
  have w: "(0 :: u32) - of_nat HEADER_LENGTH = 4294967284"
    by (simp add: HEADER_LENGTH_def)
  from C10_short_packet_not_skipped [OF short img TrueI] show ?thesis
    unfolding len w by blast
qed

text \<open>
  C1 (the code at a frame boundary). A completed transfer whose packets 0 and 1 carry
  payload with FID bit 1, handled in the state after \<open>fill_global\<close> (stored frame id 0):
  at the boundary packet the callback spawns \<open>processImage\<close> on \<open>image_buffer\<close>, clears
  \<open>image_buffer\<close> and copies the new frame's first payload into it, and only while
  handling the next packet does it take the semaphore.
\<close>

theorem C1_buffer_cleared_before_semTake:
  "trace (final (Isochronous_Completion_Callback spawn_succeeds
       (test_urb 1 [descriptor 944 USBHST_SUCCESS, descriptor 944 USBHST_SUCCESS])
       (fill_global initial_globals)))
   = [Task_Spawn_processImage, Memset_image_buffer, Memcpy_image_buffer 0 932, Sem_Take,
      Memcpy_image_buffer 932 932, Iso_URB_Submit]"
  by (simp add: eval_defs)

text \<open>
  C6 (the code on a packet with a failure status). The loop handles a packet's payload
  before it looks at the packet's \<open>nStatus\<close>, and the status changes nothing in what
  follows. Packet 0 carries 932 payload bytes \<open>0xAA\<close> and its descriptor reports
  \<open>USBHST_FAILURE\<close>: the callback ends without fault, the 932 bytes are in \<open>image_buffer\<close>
  and \<open>offset\<close> has advanced past them.
\<close>

theorem C6_failed_packet_payload_copied:
  "packet_loop oracle pUrb (i # js) g
     = (case process_packet (oracle i) pUrb i g of
          Inl f \<Rightarrow> Inl f
        | Inr g' \<Rightarrow> packet_loop oracle pUrb js g')
  \<and> fault_of (Isochronous_Completion_Callback spawn_succeeds
       (test_urb 0xAA [descriptor 944 USBHST_FAILURE]) (fill_global initial_globals)) = None
  \<and> offset (final (Isochronous_Completion_Callback spawn_succeeds
       (test_urb 0xAA [descriptor 944 USBHST_FAILURE]) (fill_global initial_globals))) = 932
  \<and> take 932 (image_buffer (final (Isochronous_Completion_Callback spawn_succeeds
       (test_urb 0xAA [descriptor 944 USBHST_FAILURE]) (fill_global initial_globals))))
     = replicate 932 0xAA"
proof (intro conjI)
  show "packet_loop oracle pUrb (i # js) g
     = (case process_packet (oracle i) pUrb i g of
          Inl f \<Rightarrow> Inl f
        | Inr g' \<Rightarrow> packet_loop oracle pUrb js g')"
    by (simp split: sum.splits)
qed (simp_all add: eval_defs)

section \<open>Proofs: buffer bounds\<close>















section \<open>Proofs: frame quota\<close>

lemma final_simps [simp]: "final (Inr g) = g" "final (Inl (f, g)) = g"
  by (simp_all add: final_def)








lemma boundaries_call [simp]:
  "boundaries (call Iso_URB_Submit g) = boundaries g"
  by (simp add: boundaries_def call_def)




lemma aborted_call [simp]: "aborted (call e g) = aborted g"
  by (simp add: call_def)

lemma resubmissions_call [simp]:
  "resubmissions (call Iso_URB_Submit g) = resubmissions g + 1"
  by (simp add: resubmissions_def call_def)









section \<open>Proofs: frame sink\<close>

text \<open>
  C9 (the code on a short write). A 4-byte payload, the header write accepted in full,
  the first payload write accepting 2 bytes and the second 4: the loop ends with
  \<open>total = 6\<close>, and the file holds the header followed by bytes 1, 2 and then the whole
  payload again from its start, not the payload. When the first payload write accepts
  everything the file is the header followed by the payload.
\<close>

theorem C9_short_write_restarts_at_buffer_start:
  "dump_ppm [1, 2, 3, 4] 4 0 [21, 2, 4]
     = Some (take 21 new_header @ [1, 2, 1, 2, 3, 4], [Sem_Give])
   \<and> dump_ppm [1, 2, 3, 4] 4 0 [21, 4] = Some (take 21 new_header @ [1, 2, 3, 4], [Sem_Give])"
  by (simp add: dump_ppm_def write_call_def new_header_def)

section \<open>Proofs: negotiator\<close>

lemma Control_Transfer_succeeds:
  assumes "transfer_succeeds e resp"
  shows "Control_Transfer e t r v i g =
     (Some USBHST_SUCCESS,
      g\<lparr>data := data_stage t resp (data g),
        trace := trace g @ [Control_URB_Submit t r v i (data g)]\<rparr>)"
  using assms
  by (simp add: Control_Transfer_def transfer_succeeds_def Control_Completion_Callback_def
      call_def Let_def)

lemma Control_Transfer_fails:
  assumes "transfer_fails e"
  shows "\<exists>st. fst (Control_Transfer e t r v i g) = Some st \<and> st \<noteq> USBHST_SUCCESS"
    and "trace (snd (Control_Transfer e t r v i g)) = trace g @ [Driver_Deregister]
       \<or> trace (snd (Control_Transfer e t r v i g)) = trace g @ [Control_URB_Submit t r v i (data g)]"
  using assms
  by (auto simp add: Control_Transfer_def transfer_fails_def Control_Completion_Callback_def
      call_def shutDown_def Let_def split: completion.splits if_splits)

lemma Control_Transfer_null:
  assumes "transfer_completes_null e"
  shows "Control_Transfer e t r v i g =
     (None, g\<lparr>trace := trace g @ [Control_URB_Submit t r v i (data g), Driver_Deregister]\<rparr>)"
  using assms
  by (simp add: Control_Transfer_def transfer_completes_null_def Control_Completion_Callback_def
      call_def shutDown_def Let_def)

lemma direction_bits:
  "\<not> bit USB_DIRECTION_OUT 7" "bit USB_DIRECTION_IN 7"
  by (simp_all add: USB_DIRECTION_OUT_def USB_DIRECTION_IN_def)

lemma start_transfers_control_submits:
  "n \<le> length (trace g) \<Longrightarrow>
   control_submits (drop n (trace (snd (start_transfers env js g))))
     = control_submits (drop n (trace g))"
  by (induction js arbitrary: g)
    (auto simp add: Isochronous_Transfer_def control_submits_def call_def shutDown_def Let_def
      split: prod.splits option.splits)

lemma data_stage_in:
  "length buf = 26 \<Longrightarrow> length (data_stage USB_DIRECTION_IN r buf) = 26"
  by (simp add: data_stage_def direction_bits)

lemma data_stage_full:
  "length buf = 26 \<Longrightarrow> (data_stage USB_DIRECTION_IN r buf = r) = (length r = 26)"
proof
  assume "data_stage USB_DIRECTION_IN r buf = r"
  then have "length (data_stage USB_DIRECTION_IN r buf) = length r" by simp
  then show "length r = 26" if "length buf = 26" using that by (simp add: data_stage_in)
next
  assume "length r = 26"
  then show "data_stage USB_DIRECTION_IN r buf = r" if "length buf = 26"
    using that by (simp add: data_stage_def direction_bits)
qed

lemma fill_global_data:
  "data (fill_global initial_globals) = [0x01, 0x00, 0x00, 0x02, 0x2A, 0x2C, 0x0A] @ replicate 19 0"
  by (simp add: fill_global_def initial_globals_def dwFrameInterval_def UNCOMPRESSED_FRAMES_def
      RESOLUTION_def FPS_15_DATA_4_def FPS_15_DATA_5_def FPS_15_DATA_6_def eval_nat_numeral)

lemma transfers_upt: "[0..<5] = [0, 1, 2, 3, 4::nat]"
  by (simp add: upt_rec)

lemmas attach_defs = attach_def healthy_device_def commit_fails_def null_at_probe_def answering_def
  null_completion_def streaming_ok_def device_answer_def

text \<open>
  C7 (as amended). When the configuration calls and all three control transfers succeed,
  the attach submits exactly three control requests: SET_CUR/PROBE and GET_CUR/PROBE with
  the host's buffer, and SET_CUR/COMMIT with the buffer as the GET_CUR data stage left it,
  that is the bytes \<open>r1\<close> the device returned (at most 26 of them) followed by the bytes
  of the host's own proposal that the answer did not reach. This payload has 26 bytes, and
  it is the device's answer byte for byte exactly when the device returned 26 bytes.
\<close>

theorem C7_commit_sends_buffer_after_probe:
  assumes cfg: "fst (get_configuration env) = USBHST_SUCCESS"
               "set_configuration env = USBHST_SUCCESS"
      and t0: "transfer_succeeds (control env 0) r0"
      and t1: "transfer_succeeds (control env 1) r1"
      and t2: "transfer_succeeds (control env 2) r2"
      and len: "length (data g) = 26"
  shows "control_submits (new_events g (snd (Add_Device_Callback env g))) =
     [Control_URB_Submit USB_DIRECTION_OUT USB_SET_CURRENT UVC_VS_PROBE_CONTROL
        USB_SETUP_PACKET_INDEX (data g),
      Control_URB_Submit USB_DIRECTION_IN USB_GET_CURRENT UVC_VS_PROBE_CONTROL
        USB_SETUP_PACKET_INDEX (data g),
      Control_URB_Submit USB_DIRECTION_OUT USB_SET_CURRENT UVC_VS_COMMIT_CONTROL
        USB_SETUP_PACKET_INDEX (take 26 r1 @ drop (length r1) (data g))]
   \<and> length (take 26 r1 @ drop (length r1) (data g)) = 26
   \<and> (take 26 r1 @ drop (length r1) (data g) = r1 \<longleftrightarrow> length r1 = 26)"
proof (intro conjI)
  have probe: "data_stage USB_DIRECTION_OUT r0 (data g) = data g"
    by (simp add: data_stage_def direction_bits)
  have answer: "data_stage USB_DIRECTION_IN r1 (data g) = take 26 r1 @ drop (length r1) (data g)"
    using len by (simp add: data_stage_def direction_bits min_def)
  from t1 have t1': "transfer_succeeds (control env (Suc 0)) r1" by simp
  show "control_submits (new_events g (snd (Add_Device_Callback env g))) =
     [Control_URB_Submit USB_DIRECTION_OUT USB_SET_CURRENT UVC_VS_PROBE_CONTROL
        USB_SETUP_PACKET_INDEX (data g),
      Control_URB_Submit USB_DIRECTION_IN USB_GET_CURRENT UVC_VS_PROBE_CONTROL
        USB_SETUP_PACKET_INDEX (data g),
      Control_URB_Submit USB_DIRECTION_OUT USB_SET_CURRENT UVC_VS_COMMIT_CONTROL
        USB_SETUP_PACKET_INDEX (take 26 r1 @ drop (length r1) (data g))]"
    unfolding Add_Device_Callback_def new_events_def
    by (simp add: cfg Control_Transfer_succeeds [OF t0] Control_Transfer_succeeds [OF t1']
        Control_Transfer_succeeds [OF t2] probe answer call_def shutDown_def Let_def
        start_transfers_control_submits)
      (simp add: control_submits_def)
  from data_stage_in [OF len, of r1]
  show "length (take 26 r1 @ drop (length r1) (data g)) = 26" by (simp only: answer)
  from data_stage_full [OF len, of r1]
  show "take 26 r1 @ drop (length r1) (data g) = r1 \<longleftrightarrow> length r1 = 26"
    by (simp only: answer)
qed

text \<open>
  C7, for a device that answers the GET_CUR probe with the 26 bytes \<open>device_answer\<close>, from
  the state after \<open>fill_global\<close>: the COMMIT payload is \<open>device_answer\<close>.
\<close>

theorem C7_witness:
  "control_submits (new_events (fill_global initial_globals)
       (snd (Add_Device_Callback (attach healthy_device) (fill_global initial_globals)))) =
     [Control_URB_Submit USB_DIRECTION_OUT USB_SET_CURRENT UVC_VS_PROBE_CONTROL
        USB_SETUP_PACKET_INDEX (data (fill_global initial_globals)),
      Control_URB_Submit USB_DIRECTION_IN USB_GET_CURRENT UVC_VS_PROBE_CONTROL
        USB_SETUP_PACKET_INDEX (data (fill_global initial_globals)),
      Control_URB_Submit USB_DIRECTION_OUT USB_SET_CURRENT UVC_VS_COMMIT_CONTROL
        USB_SETUP_PACKET_INDEX device_answer]"
proof -
  let ?env = "attach healthy_device"
  have cfg: "fst (get_configuration ?env) = USBHST_SUCCESS" "set_configuration ?env = USBHST_SUCCESS"
    by (simp_all add: attach_def)
  have t0: "transfer_succeeds (control ?env 0) []"
    and t1: "transfer_succeeds (control ?env 1) device_answer"
    and t2: "transfer_succeeds (control ?env 2) []"
    by (simp_all add: transfer_succeeds_def attach_def healthy_device_def answering_def)
  have len: "length (data (fill_global initial_globals)) = 26"
    by (simp add: fill_global_def initial_globals_def)
  have full: "length device_answer = 26"
    by (simp add: device_answer_def)
  from C7_commit_sends_buffer_after_probe [OF cfg t0 t1 t2 len, THEN conjunct1]
  show ?thesis by (simp add: full len)
qed

text \<open>
  C7 (counterexample to the claim as stated). A device that answers the GET_CUR probe
  with the three bytes 9, 9, 9: all three control transfers succeed and the attach goes on
  to select the streaming interface, and the COMMIT payload is those three bytes followed
  by bytes 3 to 25 of the proposal that \<open>fill_global\<close> wrote, not the payload the device
  returned.
\<close>

theorem C7_counterexample:
  "transfer_succeeds (control (attach short_answer) 0) []
   \<and> transfer_succeeds (control (attach short_answer) 1) [9, 9, 9]
   \<and> transfer_succeeds (control (attach short_answer) 2) []
   \<and> control_submits (new_events (fill_global initial_globals)
       (snd (Add_Device_Callback (attach short_answer) (fill_global initial_globals)))) =
     [Control_URB_Submit USB_DIRECTION_OUT USB_SET_CURRENT UVC_VS_PROBE_CONTROL
        USB_SETUP_PACKET_INDEX ([0x01, 0x00, 0x00, 0x02, 0x2A, 0x2C, 0x0A] @ replicate 19 0),
      Control_URB_Submit USB_DIRECTION_IN USB_GET_CURRENT UVC_VS_PROBE_CONTROL
        USB_SETUP_PACKET_INDEX ([0x01, 0x00, 0x00, 0x02, 0x2A, 0x2C, 0x0A] @ replicate 19 0),
      Control_URB_Submit USB_DIRECTION_OUT USB_SET_CURRENT UVC_VS_COMMIT_CONTROL
        USB_SETUP_PACKET_INDEX ([9, 9, 9, 0x02, 0x2A, 0x2C, 0x0A] @ replicate 19 0)]
   \<and> [9, 9, 9, 0x02, 0x2A, 0x2C, 0x0A] @ replicate 19 0 \<noteq> [9, 9, 9 :: u8]
   \<and> streaming_steps (new_events (fill_global initial_globals)
       (snd (Add_Device_Callback (attach short_answer) (fill_global initial_globals)))) =
     [Set_Interface INTERFACE ALTERNATE_INTERFACE, Pipe_Prepare, Iso_URB_Submit]"
  by (simp add: attach_defs short_answer_def transfer_succeeds_def Add_Device_Callback_def
      Control_Transfer_def Control_Completion_Callback_def data_stage_def direction_bits
      new_events_def call_def shutDown_def Let_def fill_global_data control_submits_def
      streaming_steps_def Isochronous_Transfer_def NO_OF_TRANSFERS_def transfers_upt)

lemma Control_Transfer_failsD:
  assumes "Control_Transfer e t r v i g = (a, b)" "transfer_fails e"
  shows "\<exists>st. a = Some st \<and> st \<noteq> USBHST_SUCCESS"
    and "trace b = trace g @ [Driver_Deregister]
       \<or> trace b = trace g @ [Control_URB_Submit t r v i (data g)]"
  using Control_Transfer_fails [OF assms(2), of t r v i g] assms(1) by simp_all

lemma aborts_at_failed_transfer:
  assumes ct: "Control_Transfer e t r v i h = (a, b)" and f: "transfer_fails e"
      and h: "trace h = trace g @ evs" "streaming_steps evs = []"
  shows "(case (a, b) of
            (None, g') \<Rightarrow> X g'
          | (Some s, g') \<Rightarrow>
              if s \<noteq> USBHST_SUCCESS then (Some USBHST_FAILURE, shutDown g') else Y s g')
         = (Some USBHST_FAILURE, shutDown b)"
    and "last (new_events g (shutDown b)) = Driver_Deregister"
    and "length (control_submits (new_events g (shutDown b))) \<le> length (control_submits evs) + 1"
    and "streaming_steps (new_events g (shutDown b)) = []"
proof -
  from Control_Transfer_failsD [OF ct f]
  obtain st where st: "a = Some st" "st \<noteq> USBHST_SUCCESS"
    and tr: "trace b = trace h @ [Driver_Deregister]
       \<or> trace b = trace h @ [Control_URB_Submit t r v i (data h)]"
    by blast
  from st show "(case (a, b) of
            (None, g') \<Rightarrow> X g'
          | (Some s, g') \<Rightarrow>
              if s \<noteq> USBHST_SUCCESS then (Some USBHST_FAILURE, shutDown g') else Y s g')
         = (Some USBHST_FAILURE, shutDown b)" by simp
  from tr h show "last (new_events g (shutDown b)) = Driver_Deregister"
    by (auto simp add: new_events_def shutDown_def call_def)
  from tr h show "length (control_submits (new_events g (shutDown b))) \<le> length (control_submits evs) + 1"
    by (auto simp add: new_events_def shutDown_def call_def control_submits_def)
  from tr h show "streaming_steps (new_events g (shutDown b)) = []"
    by (auto simp add: new_events_def shutDown_def call_def streaming_steps_def)
qed

lemma stage_fails:
  assumes f: "transfer_fails e"
      and h: "trace h = trace g @ evs" "streaming_steps evs = []"
      and n: "length (control_submits evs) = n"
  shows "\<exists>b. (case Control_Transfer e t r v i h of
            (None, g') \<Rightarrow> (None, g')
          | (Some s, g') \<Rightarrow>
              if s \<noteq> USBHST_SUCCESS then (Some USBHST_FAILURE, shutDown g') else Y s g')
         = (Some USBHST_FAILURE, b)
       \<and> last (new_events g b) = Driver_Deregister
       \<and> length (control_submits (new_events g b)) \<le> n + 1
       \<and> streaming_steps (new_events g b) = []"
proof -
  obtain a b where ct: "Control_Transfer e t r v i h = (a, b)" by fastforce
  note ab = aborts_at_failed_transfer [OF ct f h]
  have "(case Control_Transfer e t r v i h of
            (None, g') \<Rightarrow> (None, g')
          | (Some s, g') \<Rightarrow>
              if s \<noteq> USBHST_SUCCESS then (Some USBHST_FAILURE, shutDown g') else Y s g')
         = (Some USBHST_FAILURE, shutDown b)"
    unfolding ct by (rule ab(1))
  with ab(2-4) n show ?thesis by auto
qed

lemma stage_null:
  assumes f: "transfer_completes_null e"
      and h: "trace h = trace g @ evs" "streaming_steps evs = []"
      and n: "length (control_submits evs) = n"
  shows "\<exists>b. (case Control_Transfer e t r v i h of
            (None, g') \<Rightarrow> (None, g')
          | (Some s, g') \<Rightarrow>
              if s \<noteq> USBHST_SUCCESS then (Some USBHST_FAILURE, shutDown g') else Y s g')
         = (None, b)
       \<and> last (new_events g b) = Driver_Deregister
       \<and> length (control_submits (new_events g b)) = n + 1
       \<and> streaming_steps (new_events g b) = []"
  using h n
  by (auto simp add: Control_Transfer_null [OF f] new_events_def control_submits_def
      streaming_steps_def)

lemma negotiation_outcome:
  assumes cfg: "fst (get_configuration env) = USBHST_SUCCESS"
               "set_configuration env = USBHST_SUCCESS"
      and k: "k < 3"
      and before: "\<forall>j<k. \<exists>r. transfer_succeeds (control env j) r"
  shows "transfer_fails (control env k) \<Longrightarrow>
           \<exists>b. Add_Device_Callback env g = (Some USBHST_FAILURE, b)
             \<and> last (new_events g b) = Driver_Deregister
             \<and> length (control_submits (new_events g b)) \<le> k + 1
             \<and> streaming_steps (new_events g b) = []"
    and "transfer_completes_null (control env k) \<Longrightarrow>
           \<exists>b. Add_Device_Callback env g = (None, b)
             \<and> last (new_events g b) = Driver_Deregister
             \<and> length (control_submits (new_events g b)) = k + 1
             \<and> streaming_steps (new_events g b) = []"
proof -
  let ?c = "snd (get_configuration env)"
  let ?s0 = "Control_URB_Submit USB_DIRECTION_OUT USB_SET_CURRENT UVC_VS_PROBE_CONTROL
               USB_SETUP_PACKET_INDEX (data g)"
  from k consider "k = 0" | "k = 1" | "k = 2" by linarith
  then have "(transfer_fails (control env k) \<longrightarrow>
           (\<exists>b. Add_Device_Callback env g = (Some USBHST_FAILURE, b)
             \<and> last (new_events g b) = Driver_Deregister
             \<and> length (control_submits (new_events g b)) \<le> k + 1
             \<and> streaming_steps (new_events g b) = []))
       \<and> (transfer_completes_null (control env k) \<longrightarrow>
           (\<exists>b. Add_Device_Callback env g = (None, b)
             \<and> last (new_events g b) = Driver_Deregister
             \<and> length (control_submits (new_events g b)) = k + 1
             \<and> streaming_steps (new_events g b) = []))"
  proof cases
    case 1
    show ?thesis
    proof (intro conjI impI)
      assume f: "transfer_fails (control env k)"
      show "\<exists>b. Add_Device_Callback env g = (Some USBHST_FAILURE, b)
             \<and> last (new_events g b) = Driver_Deregister
             \<and> length (control_submits (new_events g b)) \<le> k + 1
             \<and> streaming_steps (new_events g b) = []"
        unfolding Add_Device_Callback_def Let_def 1
        apply (simp only: cfg simp_thms if_False)
        apply (rule stage_fails [OF f [unfolded 1],
              where evs = "[Get_Configuration, Set_Configuration ?c]"])
          apply (simp_all add: call_def streaming_steps_def control_submits_def)
        done
    next
      assume f: "transfer_completes_null (control env k)"
      show "\<exists>b. Add_Device_Callback env g = (None, b)
             \<and> last (new_events g b) = Driver_Deregister
             \<and> length (control_submits (new_events g b)) = k + 1
             \<and> streaming_steps (new_events g b) = []"
        unfolding Add_Device_Callback_def Let_def 1
        apply (simp only: cfg simp_thms if_False)
        apply (rule stage_null [OF f [unfolded 1],
              where evs = "[Get_Configuration, Set_Configuration ?c]"])
          apply (simp_all add: call_def streaming_steps_def control_submits_def)
        done
    qed
  next
    case 2
    with before obtain r0 where t0: "transfer_succeeds (control env 0) r0" by auto
    show ?thesis
    proof (intro conjI impI)
      assume f: "transfer_fails (control env k)"
      show "\<exists>b. Add_Device_Callback env g = (Some USBHST_FAILURE, b)
             \<and> last (new_events g b) = Driver_Deregister
             \<and> length (control_submits (new_events g b)) \<le> k + 1
             \<and> streaming_steps (new_events g b) = []"
        unfolding Add_Device_Callback_def Let_def 2
        apply (simp only: cfg simp_thms if_False Control_Transfer_succeeds [OF t0]
            prod.case option.case)
        apply (rule stage_fails [OF f [unfolded 2],
              where evs = "[Get_Configuration, Set_Configuration ?c, ?s0]"])
          apply (simp_all add: call_def streaming_steps_def control_submits_def)
        done
    next
      assume f: "transfer_completes_null (control env k)"
      show "\<exists>b. Add_Device_Callback env g = (None, b)
             \<and> last (new_events g b) = Driver_Deregister
             \<and> length (control_submits (new_events g b)) = k + 1
             \<and> streaming_steps (new_events g b) = []"
        unfolding Add_Device_Callback_def Let_def 2
        apply (simp only: cfg simp_thms if_False Control_Transfer_succeeds [OF t0]
            prod.case option.case)
        apply (rule stage_null [OF f [unfolded 2],
              where evs = "[Get_Configuration, Set_Configuration ?c, ?s0]"])
          apply (simp_all add: call_def streaming_steps_def control_submits_def)
        done
    qed
  next
    case 3
    with before obtain r0 r1 where t0: "transfer_succeeds (control env 0) r0"
      and t1: "transfer_succeeds (control env 1) r1"
      by (metis One_nat_def Suc_1 lessI zero_less_Suc)
    let ?s1 = "Control_URB_Submit USB_DIRECTION_IN USB_GET_CURRENT UVC_VS_PROBE_CONTROL
               USB_SETUP_PACKET_INDEX (data_stage USB_DIRECTION_OUT r0 (data g))"
    show ?thesis
    proof (intro conjI impI)
      assume f: "transfer_fails (control env k)"
      show "\<exists>b. Add_Device_Callback env g = (Some USBHST_FAILURE, b)
             \<and> last (new_events g b) = Driver_Deregister
             \<and> length (control_submits (new_events g b)) \<le> k + 1
             \<and> streaming_steps (new_events g b) = []"
        unfolding Add_Device_Callback_def Let_def 3
        apply (simp only: cfg simp_thms if_False Control_Transfer_succeeds [OF t0]
            Control_Transfer_succeeds [OF t1] prod.case option.case)
        apply (rule stage_fails [OF f [unfolded 3],
              where evs = "[Get_Configuration, Set_Configuration ?c, ?s0, ?s1]"])
          apply (simp_all add: call_def streaming_steps_def control_submits_def)
        done
    next
      assume f: "transfer_completes_null (control env k)"
      show "\<exists>b. Add_Device_Callback env g = (None, b)
             \<and> last (new_events g b) = Driver_Deregister
             \<and> length (control_submits (new_events g b)) = k + 1
             \<and> streaming_steps (new_events g b) = []"
        unfolding Add_Device_Callback_def Let_def 3
        apply (simp only: cfg simp_thms if_False Control_Transfer_succeeds [OF t0]
            Control_Transfer_succeeds [OF t1] prod.case option.case)
        apply (rule stage_null [OF f [unfolded 3],
              where evs = "[Get_Configuration, Set_Configuration ?c, ?s0, ?s1]"])
          apply (simp_all add: call_def streaming_steps_def control_submits_def)
        done
    qed
  qed
  then show "transfer_fails (control env k) \<Longrightarrow>
           \<exists>b. Add_Device_Callback env g = (Some USBHST_FAILURE, b)
             \<and> last (new_events g b) = Driver_Deregister
             \<and> length (control_submits (new_events g b)) \<le> k + 1
             \<and> streaming_steps (new_events g b) = []"
    and "transfer_completes_null (control env k) \<Longrightarrow>
           \<exists>b. Add_Device_Callback env g = (None, b)
             \<and> last (new_events g b) = Driver_Deregister
             \<and> length (control_submits (new_events g b)) = k + 1
             \<and> streaming_steps (new_events g b) = []"
    by blast+
qed

text \<open>
  C8 (as amended). Let the configuration calls succeed and the negotiation transfers
  before the \<open>k\<close>-th succeed. If the \<open>k\<close>-th ends with a non-success status (allocation,
  submission or completion status), \<open>Add_Device_Callback\<close> returns \<open>USBHST_FAILURE\<close>, its last
  call is the deregistration, it has submitted at most \<open>k + 1\<close> control requests (the
  failed one at most once) and no streaming step. If the \<open>k\<close>-th completion callback gets a
  null pointer, the callback returns \<open>USBHST_FAILURE\<close> to the stack, the last call made is
  the deregistration, exactly \<open>k + 1\<close> control requests were submitted and no streaming
  step is made.
\<close>

theorem C8_failed_transfer_aborts_negotiation:
  assumes cfg: "fst (get_configuration env) = USBHST_SUCCESS"
               "set_configuration env = USBHST_SUCCESS"
      and k: "k < 3"
      and before: "\<forall>j<k. \<exists>r. transfer_succeeds (control env j) r"
  shows "(transfer_fails (control env k) \<longrightarrow>
            fst (Add_Device_Callback env g) = Some USBHST_FAILURE
          \<and> last (new_events g (snd (Add_Device_Callback env g))) = Driver_Deregister
          \<and> length (control_submits (new_events g (snd (Add_Device_Callback env g)))) \<le> k + 1
          \<and> streaming_steps (new_events g (snd (Add_Device_Callback env g))) = [])
       \<and> (transfer_completes_null (control env k) \<longrightarrow>
            fst (Control_Completion_Callback True h) = USBHST_FAILURE
          \<and> last (new_events g (snd (Add_Device_Callback env g))) = Driver_Deregister
          \<and> length (control_submits (new_events g (snd (Add_Device_Callback env g)))) = k + 1
          \<and> streaming_steps (new_events g (snd (Add_Device_Callback env g))) = [])"
proof (intro conjI impI)
  assume f: "transfer_fails (control env k)"
  from negotiation_outcome(1) [OF cfg k before f, of g]
  obtain b where b: "Add_Device_Callback env g = (Some USBHST_FAILURE, b)"
    "last (new_events g b) = Driver_Deregister"
    "length (control_submits (new_events g b)) \<le> k + 1"
    "streaming_steps (new_events g b) = []" by blast
  from b show "fst (Add_Device_Callback env g) = Some USBHST_FAILURE" by simp
  from b show "last (new_events g (snd (Add_Device_Callback env g))) = Driver_Deregister" by simp
  from b show "length (control_submits (new_events g (snd (Add_Device_Callback env g)))) \<le> k + 1"
    by simp
  from b show "streaming_steps (new_events g (snd (Add_Device_Callback env g))) = []" by simp
next
  assume f: "transfer_completes_null (control env k)"
  from negotiation_outcome(2) [OF cfg k before f, of g]
  obtain b where b: "Add_Device_Callback env g = (None, b)"
    "last (new_events g b) = Driver_Deregister"
    "length (control_submits (new_events g b)) = k + 1"
    "streaming_steps (new_events g b) = []" by blast
  show "fst (Control_Completion_Callback True h) = USBHST_FAILURE"
    by (simp add: Control_Completion_Callback_def)
  from b show "last (new_events g (snd (Add_Device_Callback env g))) = Driver_Deregister" by simp
  from b show "length (control_submits (new_events g (snd (Add_Device_Callback env g)))) = k + 1"
    by simp
  from b show "streaming_steps (new_events g (snd (Add_Device_Callback env g))) = []" by simp
qed

text \<open>
  C8, for a device whose COMMIT transfer completes with a failure status, and for a null
  completion of the first transfer.
\<close>

theorem C8_witness:
  "fst (Add_Device_Callback (attach commit_fails) (fill_global initial_globals)) = Some USBHST_FAILURE
   \<and> last (new_events (fill_global initial_globals)
         (snd (Add_Device_Callback (attach commit_fails) (fill_global initial_globals))))
       = Driver_Deregister
   \<and> length (control_submits (new_events (fill_global initial_globals)
         (snd (Add_Device_Callback (attach commit_fails) (fill_global initial_globals))))) \<le> 3
   \<and> streaming_steps (new_events (fill_global initial_globals)
         (snd (Add_Device_Callback (attach commit_fails) (fill_global initial_globals)))) = []
   \<and> last (new_events (fill_global initial_globals)
         (snd (Add_Device_Callback (attach null_at_probe) (fill_global initial_globals))))
       = Driver_Deregister
   \<and> length (control_submits (new_events (fill_global initial_globals)
         (snd (Add_Device_Callback (attach null_at_probe) (fill_global initial_globals))))) = 1
   \<and> streaming_steps (new_events (fill_global initial_globals)
         (snd (Add_Device_Callback (attach null_at_probe) (fill_global initial_globals)))) = []"
proof -
  let ?g = "fill_global initial_globals"
  have cfg: "fst (get_configuration (attach c)) = USBHST_SUCCESS"
    "set_configuration (attach c) = USBHST_SUCCESS" for c
    by (simp_all add: attach_def)
  have two: "(2::nat) < 3" and zero: "(0::nat) < 3" by simp_all
  have before2: "\<forall>j<2. \<exists>r. transfer_succeeds (control (attach commit_fails) j) r"
    by (simp add: transfer_succeeds_def attach_def commit_fails_def healthy_device_def answering_def)
  have before0: "\<forall>j<0. \<exists>r. transfer_succeeds (control (attach null_at_probe) j) r"
    by simp
  have f: "transfer_fails (control (attach commit_fails) 2)"
    by (simp add: transfer_fails_def attach_def commit_fails_def answering_def)
  have n: "transfer_completes_null (control (attach null_at_probe) 0)"
    by (simp add: transfer_completes_null_def attach_def null_at_probe_def null_completion_def)
  from C8_failed_transfer_aborts_negotiation [OF cfg two before2, of ?g ?g] f
    C8_failed_transfer_aborts_negotiation [OF cfg zero before0, of ?g ?g] n
  show ?thesis by simp
qed

text \<open>
  C8 (counterexample to the claim as stated). The first negotiation transfer is submitted
  and its completion callback is called with a null pointer: the callback cannot release
  the event \<open>Control_Transfer\<close> waits on, so \<open>Add_Device_Callback\<close> never returns and its
  caller is given no status.
\<close>

theorem C8_counterexample:
  "fst (Add_Device_Callback (attach null_at_probe) (fill_global initial_globals)) = None"
  by (simp add: Add_Device_Callback_def Control_Transfer_def Control_Completion_Callback_def
      attach_defs Let_def)


end
